theory Spec2Isabelle
  imports Main
begin

section \<open>Data model\<close>

text \<open>
  The store of \<^verbatim>\<open>powerpops.py\<close> is the class \<^verbatim>\<open>ResourceReservationSystem\<close>: a SQLite
  connection with the two tables created by \<^verbatim>\<open>_initialize_db\<close>.

  A row of \<^verbatim>\<open>resources (id INTEGER PRIMARY KEY, name TEXT NOT NULL, description TEXT,
  available INTEGER DEFAULT 1)\<close> and a row of \<^verbatim>\<open>reservations (id INTEGER PRIMARY KEY
  AUTOINCREMENT, resource_id INTEGER, user_name TEXT NOT NULL, date TEXT NOT NULL)\<close> are
  records. Integers are Python integers (\<open>int\<close>); they are taken to lie inside SQLite's
  64-bit INTEGER range, so binding a parameter never overflows. Text is a \<open>string\<close>, each
  \<open>char\<close> standing for one code point below 256.
\<close>

record resource =
  res_id :: int
  res_name :: string
  res_description :: string
  res_available :: int

record reservation =
  rsv_id :: int
  rsv_resource_id :: int
  rsv_user_name :: string
  rsv_date :: string

text \<open>
  The state seen through the one connection of the program: the rows of both tables, the
  counter that SQLite keeps in \<^verbatim>\<open>sqlite_sequence\<close> for the AUTOINCREMENT key of
  \<^verbatim>\<open>reservations\<close> (0 while no row was ever inserted), and the lines written by
  \<^verbatim>\<open>print\<close>. The foreign key of \<^verbatim>\<open>reservations\<close> is declared but not enforced: the
  program never issues \<^verbatim>\<open>PRAGMA foreign_keys = ON\<close>.
\<close>

record system =
  resources :: "resource list"
  reservations :: "reservation list"
  reservation_seq :: int
  stdout :: "string list"

definition empty_db :: system where
  "empty_db = \<lparr>resources = [], reservations = [], reservation_seq = 0, stdout = []\<rparr>"

text \<open>The two PRIMARY KEY constraints of the schema: no two rows of a table share an id.\<close>

definition valid_db :: "system \<Rightarrow> bool" where
  "valid_db s = (distinct (map res_id (resources s)) \<and> distinct (map rsv_id (reservations s)))"

text \<open>
  Exceptions. Every exception raised in the modelled code is a subclass of
  \<^verbatim>\<open>sqlite3.Error\<close>; the string is its message.
\<close>

datatype exn = IntegrityError string | OperationalError string | DatabaseError string

fun exn_message :: "exn \<Rightarrow> string" where
  "exn_message (IntegrityError m) = m"
| "exn_message (OperationalError m) = m"
| "exn_message (DatabaseError m) = m"

definition print :: "string \<Rightarrow> system \<Rightarrow> system" where
  "print line s = s\<lparr>stdout := stdout s @ [line]\<rparr>"

section \<open>The SQL statements\<close>

text \<open>\<^verbatim>\<open>SELECT MAX(id) FROM resources\<close>: NULL (None) on an empty table.\<close>

definition select_max_id :: "system \<Rightarrow> int option" where
  "select_max_id s =
     (if resources s = [] then None else Some (Max (set (map res_id (resources s)))))"

text \<open>
  \<^verbatim>\<open>INSERT INTO resources (id, name, description) VALUES (?, ?, ?)\<close>: the primary key
  must be new; \<^verbatim>\<open>available\<close> takes its default 1.
\<close>

definition insert_resource :: "int \<Rightarrow> string \<Rightarrow> string \<Rightarrow> system \<Rightarrow> exn + system" where
  "insert_resource new_id name description s =
     (if new_id \<in> set (map res_id (resources s))
      then Inl (IntegrityError ''UNIQUE constraint failed: resources.id'')
      else Inr (s\<lparr>resources := resources s @
             [\<lparr>res_id = new_id, res_name = name, res_description = description,
               res_available = 1\<rparr>]\<rparr>))"

text \<open>
  The dynamic statement of \<^verbatim>\<open>update_resource\<close>: each entry of \<^verbatim>\<open>updates\<close> together with
  its entry of \<^verbatim>\<open>params\<close> is one assignment of the SET clause.
\<close>

datatype assignment = SetName string | SetDescription string | SetAvailable int

fun assignment_sql :: "assignment \<Rightarrow> string" where
  "assignment_sql (SetName v) = ''name = ?''"
| "assignment_sql (SetDescription v) = ''description = ?''"
| "assignment_sql (SetAvailable v) = ''available = ?''"

fun apply_assignment :: "assignment \<Rightarrow> resource \<Rightarrow> resource" where
  "apply_assignment (SetName v) r = r\<lparr>res_name := v\<rparr>"
| "apply_assignment (SetDescription v) r = r\<lparr>res_description := v\<rparr>"
| "apply_assignment (SetAvailable v) r = r\<lparr>res_available := v\<rparr>"

text \<open>\<^verbatim>\<open>', '.join(updates)\<close>\<close>

fun join :: "string \<Rightarrow> string list \<Rightarrow> string" where
  "join sep [] = []"
| "join sep [x] = x"
| "join sep (x # y # ys) = x @ sep @ join sep (y # ys)"

definition update_query :: "assignment list \<Rightarrow> string" where
  "update_query updates =
     ''UPDATE resources SET '' @ join '', '' (map assignment_sql updates) @ '' WHERE id = ?''"

text \<open>
  Executing the statement built by \<^verbatim>\<open>update_resource\<close>. With no assignment the text is
  \<^verbatim>\<open>UPDATE resources SET  WHERE id = ?\<close>, which SQLite rejects when it prepares it.
\<close>

definition execute_update :: "assignment list \<Rightarrow> int \<Rightarrow> system \<Rightarrow> exn + system" where
  "execute_update updates resource_id s =
     (if updates = [] then Inl (OperationalError ''near \"WHERE\": syntax error'')
      else Inr (s\<lparr>resources :=
             map (\<lambda>r. if res_id r = resource_id then fold apply_assignment updates r else r)
               (resources s)\<rparr>))"

text \<open>\<^verbatim>\<open>DELETE FROM reservations WHERE resource_id = ?\<close>\<close>

definition delete_reservations_of :: "int \<Rightarrow> system \<Rightarrow> system" where
  "delete_reservations_of resource_id s =
     s\<lparr>reservations := filter (\<lambda>v. rsv_resource_id v \<noteq> resource_id) (reservations s)\<rparr>"

text \<open>\<^verbatim>\<open>DELETE FROM resources WHERE id = ?\<close>\<close>

definition delete_resource_row :: "int \<Rightarrow> system \<Rightarrow> system" where
  "delete_resource_row resource_id s =
     s\<lparr>resources := filter (\<lambda>r. res_id r \<noteq> resource_id) (resources s)\<rparr>"

text \<open>\<^verbatim>\<open>DELETE FROM reservations WHERE id = ?\<close>\<close>

definition delete_reservation_row :: "int \<Rightarrow> system \<Rightarrow> system" where
  "delete_reservation_row reservation_id s =
     s\<lparr>reservations := filter (\<lambda>v. rsv_id v \<noteq> reservation_id) (reservations s)\<rparr>"

text \<open>\<^verbatim>\<open>SELECT id FROM resources ORDER BY id\<close>\<close>

definition select_ids_ordered :: "system \<Rightarrow> int list" where
  "select_ids_ordered s = sort (map res_id (resources s))"

text \<open>
  \<^verbatim>\<open>UPDATE resources SET id = ? WHERE id = ?\<close>: moving a row onto the key of another row
  violates the primary key, and the statement changes nothing.
\<close>

definition update_resource_id :: "int \<Rightarrow> int \<Rightarrow> system \<Rightarrow> exn + system" where
  "update_resource_id new_id old_id s =
     (if old_id \<in> set (map res_id (resources s)) \<and> new_id \<noteq> old_id
         \<and> new_id \<in> set (map res_id (resources s))
      then Inl (IntegrityError ''UNIQUE constraint failed: resources.id'')
      else Inr (s\<lparr>resources :=
             map (\<lambda>r. if res_id r = old_id then r\<lparr>res_id := new_id\<rparr> else r) (resources s)\<rparr>))"

text \<open>\<^verbatim>\<open>UPDATE reservations SET resource_id = ? WHERE resource_id = ?\<close>\<close>

definition update_reservation_fk :: "int \<Rightarrow> int \<Rightarrow> system \<Rightarrow> system" where
  "update_reservation_fk new_id old_id s =
     s\<lparr>reservations :=
         map (\<lambda>v. if rsv_resource_id v = old_id then v\<lparr>rsv_resource_id := new_id\<rparr> else v)
           (reservations s)\<rparr>"

text \<open>\<^verbatim>\<open>SELECT id, available FROM resources WHERE id = ?\<close> followed by \<^verbatim>\<open>fetchone()\<close>\<close>

definition select_resource :: "int \<Rightarrow> system \<Rightarrow> (int \<times> int) option" where
  "select_resource resource_id s =
     map_option (\<lambda>r. (res_id r, res_available r))
       (find (\<lambda>r. res_id r = resource_id) (resources s))"

text \<open>
  \<^verbatim>\<open>INSERT INTO reservations (resource_id, user_name, date) VALUES (?, ?, ?)\<close>: the
  AUTOINCREMENT key is one more than the largest key the table holds or ever held.
\<close>

definition next_reservation_id :: "system \<Rightarrow> int" where
  "next_reservation_id s =
     max (reservation_seq s)
       (if reservations s = [] then 0 else Max (set (map rsv_id (reservations s)))) + 1"

definition insert_reservation :: "int \<Rightarrow> string \<Rightarrow> string \<Rightarrow> system \<Rightarrow> system" where
  "insert_reservation resource_id user_name date s =
     (let new_id = next_reservation_id s
      in s\<lparr>reservations := reservations s @
             [\<lparr>rsv_id = new_id, rsv_resource_id = resource_id, rsv_user_name = user_name,
               rsv_date = date\<rparr>],
           reservation_seq := new_id\<rparr>)"

text \<open>\<^verbatim>\<open>UPDATE resources SET available = 0 WHERE id = ?\<close>\<close>

definition set_unavailable :: "int \<Rightarrow> system \<Rightarrow> system" where
  "set_unavailable resource_id s =
     s\<lparr>resources :=
         map (\<lambda>r. if res_id r = resource_id then r\<lparr>res_available := 0\<rparr> else r) (resources s)\<rparr>"

section \<open>The operations of the store\<close>

text \<open>
  An operation that returns nothing yields \<open>(None, s')\<close> when it returns and
  \<open>(Some e, s')\<close> when the exception \<open>e\<close> leaves it; \<open>s'\<close> is the state the connection
  sees afterwards. \<^verbatim>\<open>commit()\<close> does not change what the connection sees.
\<close>

definition generate_resource_id :: "system \<Rightarrow> int" where
  "generate_resource_id s =
     (case select_max_id s of None \<Rightarrow> 1 | Some max_id \<Rightarrow> max_id + 1)"

definition add_resource :: "string \<Rightarrow> string \<Rightarrow> system \<Rightarrow> exn option \<times> system" where
  "add_resource name description s =
     (let new_id = generate_resource_id s
      in case insert_resource new_id name description s of
           Inl e \<Rightarrow> (Some e, s)
         | Inr s' \<Rightarrow> (None, s'))"

text \<open>Python truthiness of an optional string: \<^verbatim>\<open>None\<close> and \<^verbatim>\<open>""\<close> are false.\<close>

fun truthy :: "string option \<Rightarrow> bool" where
  "truthy None = False"
| "truthy (Some v) = (v \<noteq> [])"

definition build_updates :: "string option \<Rightarrow> string option \<Rightarrow> int option \<Rightarrow> assignment list" where
  "build_updates name description available =
     (if truthy name then [SetName (the name)] else []) @
     (if truthy description then [SetDescription (the description)] else []) @
     (if available \<noteq> None then [SetAvailable (the available)] else [])"

definition update_resource ::
  "int \<Rightarrow> string option \<Rightarrow> string option \<Rightarrow> int option \<Rightarrow> system \<Rightarrow> exn option \<times> system" where
  "update_resource resource_id name description available s =
     (case execute_update (build_updates name description available) resource_id s of
        Inl e \<Rightarrow> (Some e, s)
      | Inr s' \<Rightarrow> (None, s'))"

text \<open>\<^verbatim>\<open>enumerate(resources, start=1)\<close>\<close>

fun enumerate_from :: "int \<Rightarrow> 'a list \<Rightarrow> (int \<times> 'a) list" where
  "enumerate_from start [] = []"
| "enumerate_from start (x # xs) = (start, x) # enumerate_from (start + 1) xs"

text \<open>The loop of \<^verbatim>\<open>_reassign_ids\<close> over the rows fetched before it starts.\<close>

fun reassign_loop :: "(int \<times> int) list \<Rightarrow> system \<Rightarrow> exn option \<times> system" where
  "reassign_loop [] s = (None, s)"
| "reassign_loop ((index, old_id) # rest) s =
     (case update_resource_id index old_id s of
        Inl e \<Rightarrow> (Some e, s)
      | Inr s1 \<Rightarrow> reassign_loop rest (update_reservation_fk index old_id s1))"

definition reassign_ids :: "system \<Rightarrow> exn option \<times> system" where
  "reassign_ids s = reassign_loop (enumerate_from 1 (select_ids_ordered s)) s"

definition delete_resource :: "int \<Rightarrow> system \<Rightarrow> exn option \<times> system" where
  "delete_resource resource_id s =
     reassign_ids (delete_resource_row resource_id (delete_reservations_of resource_id s))"

text \<open>
  \<^verbatim>\<open>str.isspace\<close> on one code point below 256, and \<^verbatim>\<open>str.strip()\<close>, which removes the
  white space at both ends.
\<close>

definition isspace :: "char \<Rightarrow> bool" where
  "isspace c = (of_char c \<in> {9, 10, 11, 12, 13, 28, 29, 30, 31, 32, 133, 160 :: nat})"

definition strip :: "string \<Rightarrow> string" where
  "strip v = rev (dropWhile isspace (rev (dropWhile isspace v)))"

text \<open>
  The calls that \<^verbatim>\<open>create_reservation\<close> makes on the database, in the order of the
  source: \<^verbatim>\<open>execute\<close> of the SELECT, \<^verbatim>\<open>fetchone\<close>, \<^verbatim>\<open>execute\<close> of the INSERT and of the
  UPDATE, \<^verbatim>\<open>commit\<close>. The environment may make any of them fail with a \<^verbatim>\<open>sqlite3.Error\<close> (a locked
  or unwritable file); \<open>faults\<close> says which, and \<open>no_faults\<close> is a database that answers
  every call.
\<close>

datatype db_call = SelectResource | FetchResource | InsertReservation | UpdateAvailable | Commit

type_synonym faults = "db_call \<Rightarrow> exn option"

definition no_faults :: faults where
  "no_faults = (\<lambda>c. None)"

text \<open>The body of the \<^verbatim>\<open>try\<close> block: \<open>Inl e\<close> is the exception \<open>e\<close> raised inside it.\<close>

definition create_reservation_try ::
  "faults \<Rightarrow> int \<Rightarrow> string \<Rightarrow> string \<Rightarrow> system \<Rightarrow> (exn + bool) \<times> system" where
  "create_reservation_try faults resource_id user_name date s =
     (if strip user_name = [] then (Inr False, s)
      else (case faults SelectResource of
        Some e \<Rightarrow> (Inl e, s)
      | None \<Rightarrow>
        (case faults FetchResource of
          Some e \<Rightarrow> (Inl e, s)
        | None \<Rightarrow>
          (case select_resource resource_id s of
            None \<Rightarrow> (Inr False, print ''Resource does not exist.'' s)
          | Some resource \<Rightarrow>
            (if snd resource = 0 then (Inr False, print ''Resource is not available.'' s)
             else (case faults InsertReservation of
               Some e \<Rightarrow> (Inl e, s)
             | None \<Rightarrow>
               (let s1 = insert_reservation resource_id user_name date s
                in (case faults UpdateAvailable of
                  Some e \<Rightarrow> (Inl e, s1)
                | None \<Rightarrow>
                  (let s2 = set_unavailable resource_id s1
                   in (case faults Commit of
                     Some e \<Rightarrow> (Inl e, s2)
                   | None \<Rightarrow>
                     (Inr True, print ''Reservation created successfully.'' s2)))))))))))"

text \<open>\<^verbatim>\<open>try: ... except sqlite3.Error as e: print(...); return False\<close>\<close>

definition create_reservation ::
  "faults \<Rightarrow> int \<Rightarrow> string \<Rightarrow> string \<Rightarrow> system \<Rightarrow> (exn + bool) \<times> system" where
  "create_reservation faults resource_id user_name date s =
     (case create_reservation_try faults resource_id user_name date s of
        (Inl e, s') \<Rightarrow>
          (Inr False, print (''Database error during reservation: '' @ exn_message e) s')
      | (Inr b, s') \<Rightarrow> (Inr b, s'))"

text \<open>
  The release action of the admin view, \<^verbatim>\<open>remove_reservation_ui\<close>, on the store (the
  redraw that follows it reads the store only).
\<close>

definition remove_reservation_ui :: "int \<Rightarrow> int \<Rightarrow> system \<Rightarrow> exn option \<times> system" where
  "remove_reservation_ui reservation_id resource_id s =
     update_resource resource_id None None (Some 1) (delete_reservation_row reservation_id s)"

section \<open>Renumbering, sequences of operations and sample states\<close>

text \<open>
  The id that a renumbering starting at \<open>start\<close> gives to \<open>x\<close>: \<open>start\<close> plus the number
  of ids below \<open>x\<close>, for an \<open>x\<close> among the ids; any other number is left alone.
\<close>

definition renumbered :: "int \<Rightarrow> int list \<Rightarrow> int \<Rightarrow> int" where
  "renumbered start ids x =
     (if x \<in> set ids then start + int (length (filter (\<lambda>y. y < x) ids)) else x)"

text \<open>The resource ids are exactly \<open>1..n\<close>, \<open>n\<close> the number of resources.\<close>

definition contiguous_ids :: "system \<Rightarrow> bool" where
  "contiguous_ids s = (sort (map res_id (resources s)) = [1..int (length (resources s))])"

text \<open>
  The calls a client of the store can make, and the state after a sequence of them. A call
  that raises leaves the state it had reached.
\<close>

datatype operation =
    AddResource string string
  | UpdateResource int "string option" "string option" "int option"
  | DeleteResource int
  | CreateReservation faults int string string
  | RemoveReservation int int

fun step :: "operation \<Rightarrow> system \<Rightarrow> system" where
  "step (AddResource name description) s = snd (add_resource name description s)"
| "step (UpdateResource resource_id name description available) s =
     snd (update_resource resource_id name description available s)"
| "step (DeleteResource resource_id) s = snd (delete_resource resource_id s)"
| "step (CreateReservation faults resource_id user_name date) s =
     snd (create_reservation faults resource_id user_name date s)"
| "step (RemoveReservation reservation_id resource_id) s =
     snd (remove_reservation_ui reservation_id resource_id s)"

definition run :: "operation list \<Rightarrow> system \<Rightarrow> system" where
  "run ops s = fold step ops s"

text \<open>Sample states: three resources with gaps in their ids, and a table with the id 0.\<close>

definition sample_db :: system where
  "sample_db =
     \<lparr>resources =
        [\<lparr>res_id = 2, res_name = ''Room A'', res_description = ''first floor'', res_available = 0\<rparr>,
         \<lparr>res_id = 5, res_name = ''Projector'', res_description = ''HDMI'', res_available = 1\<rparr>,
         \<lparr>res_id = 9, res_name = ''Van'', res_description = ''seven seats'', res_available = 0\<rparr>],
      reservations =
        [\<lparr>rsv_id = 1, rsv_resource_id = 2, rsv_user_name = ''Alice'', rsv_date = ''2024-01-01''\<rparr>,
         \<lparr>rsv_id = 2, rsv_resource_id = 5, rsv_user_name = ''Bob'', rsv_date = ''2024-01-02''\<rparr>,
         \<lparr>rsv_id = 4, rsv_resource_id = 9, rsv_user_name = ''Carol'', rsv_date = ''2024-01-03''\<rparr>],
      reservation_seq = 4,
      stdout = []\<rparr>"



section \<open>Auxiliary facts\<close>

lemma strip_empty_iff: "strip v = [] \<longleftrightarrow> (\<forall>c\<in>set v. isspace c)"
proof -
  have "strip v = [] \<longleftrightarrow> (\<forall>c\<in>set (dropWhile isspace v). isspace c)"
    by (simp add: strip_def dropWhile_eq_Nil_conv)
  also have "\<dots> \<longleftrightarrow> dropWhile isspace v = []"
  proof
    assume all: "\<forall>c\<in>set (dropWhile isspace v). isspace c"
    show "dropWhile isspace v = []"
    proof (rule ccontr)
      assume ne: "dropWhile isspace v \<noteq> []"
      then have "\<not> isspace (hd (dropWhile isspace v))" by (rule hd_dropWhile)
      moreover from ne have "hd (dropWhile isspace v) \<in> set (dropWhile isspace v)" by simp
      ultimately show False using all by blast
    qed
  next
    assume e: "dropWhile isspace v = []"
    show "\<forall>c\<in>set (dropWhile isspace v). isspace c" unfolding e by simp
  qed
  also have "\<dots> \<longleftrightarrow> (\<forall>c\<in>set v. isspace c)"
    by (simp add: dropWhile_eq_Nil_conv)
  finally show ?thesis .
qed

lemma find_distinct_key:
  "distinct (map f xs) \<Longrightarrow> x \<in> set xs \<Longrightarrow> find (\<lambda>y. f y = f x) xs = Some x"
  by (induction xs) (auto simp: image_iff)


lemma select_resource_present:
  "distinct (map res_id (resources s)) \<Longrightarrow> r \<in> set (resources s) \<Longrightarrow>
   select_resource (res_id r) s = Some (res_id r, res_available r)"
  by (simp add: select_resource_def find_distinct_key)

lemma create_reservation_result:
  "fst (create_reservation faults resource_id user_name date s) =
     Inr (strip user_name \<noteq> [] \<and> (\<forall>c. faults c = None) \<and>
          (\<exists>row. select_resource resource_id s = Some row \<and> snd row \<noteq> 0))"
proof -
  have calls: "(\<forall>c. faults c = None) \<longleftrightarrow>
      faults SelectResource = None \<and> faults FetchResource = None \<and>
      faults InsertReservation = None \<and> faults UpdateAvailable = None \<and>
      faults Commit = None"
    by (metis db_call.exhaust)
  show ?thesis
    unfolding calls
    by (simp add: create_reservation_def create_reservation_try_def Let_def
        split: option.splits)
qed


lemma renumbered_step:
  assumes "\<forall>y\<in>set xs. x < y" and "k \<le> x"
  shows "renumbered (k + 1) xs (if y = x then k else y) = renumbered k (x # xs) y"
proof -
  have "filter (\<lambda>z. z < x) xs = []"
    using assms(1) by (auto simp: filter_empty_conv)
  moreover have "k \<notin> set xs" using assms by auto
  ultimately show ?thesis
    using assms(1) by (auto simp: renumbered_def)
qed

lemma reassign_loop_renumbers:
  assumes "sorted rest" and "distinct rest" and "\<forall>x\<in>set rest. k \<le> x"
    and "\<forall>y\<in>set (map res_id (resources s)). k \<le> y \<longrightarrow> y \<in> set rest"
  shows "reassign_loop (enumerate_from k rest) s =
     (None, s\<lparr>resources := map (\<lambda>r. r\<lparr>res_id := renumbered k rest (res_id r)\<rparr>) (resources s),
              reservations :=
                map (\<lambda>v. v\<lparr>rsv_resource_id := renumbered k rest (rsv_resource_id v)\<rparr>)
                  (reservations s)\<rparr>)"
  using assms
proof (induction rest arbitrary: k s)
  case Nil
  then show ?case by (simp add: renumbered_def)
next
  case (Cons x xs)
  have above: "\<forall>y\<in>set xs. x < y"
    using Cons.prems(1,2) by (auto simp: order_less_le)
  have kx: "k \<le> x" using Cons.prems(3) by simp
  have no_conflict: "\<not> (x \<in> set (map res_id (resources s)) \<and> k \<noteq> x
      \<and> k \<in> set (map res_id (resources s)))"
  proof
    assume c: "x \<in> set (map res_id (resources s)) \<and> k \<noteq> x
      \<and> k \<in> set (map res_id (resources s))"
    then have "k \<in> set (x # xs)" using Cons.prems(4) by blast
    with c above kx show False by auto
  qed
  define s1 where "s1 = s\<lparr>resources :=
     map (\<lambda>r. if res_id r = x then r\<lparr>res_id := k\<rparr> else r) (resources s)\<rparr>"
  define s2 where "s2 = update_reservation_fk k x s1"
  have step: "update_resource_id k x s = Inr s1"
    using no_conflict by (simp add: update_resource_id_def s1_def)
  have ids2: "\<forall>y\<in>set (map res_id (resources s2)). k + 1 \<le> y \<longrightarrow> y \<in> set xs"
  proof (intro ballI impI)
    fix y assume y: "y \<in> set (map res_id (resources s2))" and ky: "k + 1 \<le> y"
    from y obtain r where r: "r \<in> set (resources s)"
      and yr: "y = (if res_id r = x then k else res_id r)"
      by (auto simp: s2_def s1_def update_reservation_fk_def split: if_splits)
    from yr ky have "res_id r \<noteq> x" and "y = res_id r" by (auto split: if_splits)
    moreover from this r ky Cons.prems(4) have "y \<in> set (x # xs)" by auto
    ultimately show "y \<in> set xs" by auto
  qed
  have IH: "reassign_loop (enumerate_from (k + 1) xs) s2 =
     (None, s2\<lparr>resources := map (\<lambda>r. r\<lparr>res_id := renumbered (k + 1) xs (res_id r)\<rparr>) (resources s2),
              reservations :=
                map (\<lambda>v. v\<lparr>rsv_resource_id := renumbered (k + 1) xs (rsv_resource_id v)\<rparr>)
                  (reservations s2)\<rparr>)"
  proof (rule Cons.IH)
    show "sorted xs" using Cons.prems(1) by simp
    show "distinct xs" using Cons.prems(2) by simp
    show "\<forall>x\<in>set xs. k + 1 \<le> x" using above kx by auto
    show "\<forall>y\<in>set (map res_id (resources s2)). k + 1 \<le> y \<longrightarrow> y \<in> set xs" by (rule ids2)
  qed
  have st_eq: "renumbered (k + 1) xs k = renumbered k (x # xs) x"
    using renumbered_step [OF above kx, of x] by simp
  have st_neq: "\<And>y. y \<noteq> x \<Longrightarrow> renumbered (k + 1) xs y = renumbered k (x # xs) y"
    using renumbered_step [OF above kx] by (metis (full_types))
  have res: "map (\<lambda>r. r\<lparr>res_id := renumbered (k + 1) xs (res_id r)\<rparr>) (resources s2) =
      map (\<lambda>r. r\<lparr>res_id := renumbered k (x # xs) (res_id r)\<rparr>) (resources s)"
    by (simp add: s2_def s1_def update_reservation_fk_def st_eq st_neq)
  have rsv: "map (\<lambda>v. v\<lparr>rsv_resource_id := renumbered (k + 1) xs (rsv_resource_id v)\<rparr>)
        (reservations s2) =
      map (\<lambda>v. v\<lparr>rsv_resource_id := renumbered k (x # xs) (rsv_resource_id v)\<rparr>)
        (reservations s)"
    by (simp add: s2_def s1_def update_reservation_fk_def st_eq st_neq)
  have "reassign_loop (enumerate_from k (x # xs)) s = reassign_loop (enumerate_from (k + 1) xs) s2"
    by (simp add: step s2_def)
  also note IH
  finally show ?case
    by (simp add: res rsv) (simp add: s2_def s1_def update_reservation_fk_def)
qed

lemma renumbered_sort: "renumbered k (sort ids) x = renumbered k ids x"
  by (simp add: renumbered_def filter_sort)

lemma length_filter_mono:
  "(\<And>x. x \<in> set xs \<Longrightarrow> P x \<Longrightarrow> Q x) \<Longrightarrow> length (filter P xs) \<le> length (filter Q xs)"
  by (induction xs) auto

lemma length_filter_strict_mono:
  "(\<And>x. x \<in> set xs \<Longrightarrow> P x \<Longrightarrow> Q x) \<Longrightarrow> a \<in> set xs \<Longrightarrow> Q a \<Longrightarrow> \<not> P a \<Longrightarrow>
   length (filter P xs) < length (filter Q xs)"
proof (induction xs)
  case Nil
  then show ?case by simp
next
  case (Cons x xs)
  have le: "length (filter P xs) \<le> length (filter Q xs)"
    using Cons.prems(1) by (intro length_filter_mono) auto
  show ?case
  proof (cases "a = x")
    case True
    with Cons.prems le show ?thesis by simp
  next
    case False
    with Cons.prems have "length (filter P xs) < length (filter Q xs)"
      by (intro Cons.IH) auto
    with Cons.prems(1) [of x] show ?thesis by auto
  qed
qed

lemma renumbered_strict_mono:
  assumes "a \<in> set ids" and "b \<in> set ids" and "a < b"
  shows "renumbered k ids a < renumbered k ids b"
proof -
  have "length (filter (\<lambda>y. y < a) ids) < length (filter (\<lambda>y. y < b) ids)"
    using assms by (intro length_filter_strict_mono [where a = a]) auto
  then show ?thesis using assms by (simp add: renumbered_def)
qed

lemma renumbered_inj_on: "inj_on (renumbered k ids) (set ids)"
proof (rule inj_onI)
  fix a b assume a: "a \<in> set ids" and b: "b \<in> set ids"
    and eq: "renumbered k ids a = renumbered k ids b"
  show "a = b"
  proof (rule ccontr)
    assume "a \<noteq> b"
    then consider "a < b" | "b < a" by linarith
    then show False
      using renumbered_strict_mono [OF a b, of k] renumbered_strict_mono [OF b a, of k] eq
      by cases auto
  qed
qed

lemma renumbered_sorted_upto:
  "sorted xs \<Longrightarrow> distinct xs \<Longrightarrow> map (renumbered k xs) xs = [k..k + int (length xs) - 1]"
proof (induction xs arbitrary: k)
  case Nil
  then show ?case by simp
next
  case (Cons x xs)
  have above: "\<forall>y\<in>set xs. x < y"
    using Cons.prems by (auto simp: order_less_le)
  then have none: "filter (\<lambda>z. z < x) xs = []"
    by (auto simp: filter_empty_conv)
  have hd: "renumbered k (x # xs) x = k"
    by (simp add: renumbered_def none)
  have tl: "map (renumbered k (x # xs)) xs = map (renumbered (k + 1) xs) xs"
    using above by (auto simp: renumbered_def)
  have "map (renumbered (k + 1) xs) xs = [k + 1..k + 1 + int (length xs) - 1]"
    using Cons.prems by (intro Cons.IH) auto
  moreover have "[k..k + int (length (x # xs)) - 1] = k # [k + 1..k + 1 + int (length xs) - 1]"
    by (subst upto_rec1) (simp_all add: algebra_simps)
  ultimately show ?case
    by (simp only: list.map hd tl)
qed

lemma renumbered_ids:
  assumes "distinct ids"
  shows "distinct (map (renumbered k ids) ids)"
    and "set (map (renumbered k ids) ids) = {k..k + int (length ids) - 1}"
proof -
  show "distinct (map (renumbered k ids) ids)"
    using assms by (simp add: distinct_map renumbered_inj_on)
  have "set (map (renumbered k ids) ids) = set (map (renumbered k (sort ids)) (sort ids))"
    by (simp add: renumbered_sort [abs_def])
  also have "\<dots> = set [k..k + int (length (sort ids)) - 1]"
    using assms by (subst renumbered_sorted_upto) auto
  finally show "set (map (renumbered k ids) ids) = {k..k + int (length ids) - 1}"
    by simp
qed

lemma delete_resource_renumbers:
  assumes "distinct (map res_id (resources s))" and "\<forall>r\<in>set (resources s). 1 \<le> res_id r"
  shows "delete_resource resource_id s =
     (None, s\<lparr>resources :=
                map (\<lambda>r. r\<lparr>res_id := renumbered 1
                      (map res_id (filter (\<lambda>r. res_id r \<noteq> resource_id) (resources s)))
                      (res_id r)\<rparr>)
                  (filter (\<lambda>r. res_id r \<noteq> resource_id) (resources s)),
              reservations :=
                map (\<lambda>v. v\<lparr>rsv_resource_id := renumbered 1
                      (map res_id (filter (\<lambda>r. res_id r \<noteq> resource_id) (resources s)))
                      (rsv_resource_id v)\<rparr>)
                  (filter (\<lambda>v. rsv_resource_id v \<noteq> resource_id) (reservations s))\<rparr>)"
proof -
  define s2 where "s2 = delete_resource_row resource_id (delete_reservations_of resource_id s)"
  define ids where "ids = map res_id (filter (\<lambda>r. res_id r \<noteq> resource_id) (resources s))"
  have res2: "resources s2 = filter (\<lambda>r. res_id r \<noteq> resource_id) (resources s)"
    and rsv2: "reservations s2 = filter (\<lambda>v. rsv_resource_id v \<noteq> resource_id) (reservations s)"
    by (simp_all add: s2_def delete_resource_row_def delete_reservations_of_def)
  have ids2: "map res_id (resources s2) = ids" by (simp add: ids_def res2)
  have dist: "distinct ids"
    using assms(1) by (simp add: ids_def distinct_map_filter)
  have pos: "\<forall>x\<in>set ids. 1 \<le> x" using assms(2) by (auto simp: ids_def)
  have "reassign_loop (enumerate_from 1 (sort ids)) s2 =
     (None, s2\<lparr>resources := map (\<lambda>r. r\<lparr>res_id := renumbered 1 (sort ids) (res_id r)\<rparr>) (resources s2),
              reservations :=
                map (\<lambda>v. v\<lparr>rsv_resource_id := renumbered 1 (sort ids) (rsv_resource_id v)\<rparr>)
                  (reservations s2)\<rparr>)"
  proof (rule reassign_loop_renumbers)
    show "sorted (sort ids)" by simp
    show "distinct (sort ids)" using dist by simp
    show "\<forall>x\<in>set (sort ids). 1 \<le> x" using pos by simp
    show "\<forall>y\<in>set (map res_id (resources s2)). 1 \<le> y \<longrightarrow> y \<in> set (sort ids)"
      by (simp add: ids2)
  qed
  then have "delete_resource resource_id s =
     (None, s2\<lparr>resources := map (\<lambda>r. r\<lparr>res_id := renumbered 1 ids (res_id r)\<rparr>) (resources s2),
              reservations :=
                map (\<lambda>v. v\<lparr>rsv_resource_id := renumbered 1 ids (rsv_resource_id v)\<rparr>)
                  (reservations s2)\<rparr>)"
    by (simp add: delete_resource_def reassign_ids_def select_ids_ordered_def s2_def [symmetric]
        ids2 renumbered_sort)
  then show ?thesis
    unfolding res2 rsv2 ids_def
    by (simp add: s2_def delete_resource_row_def delete_reservations_of_def)
qed

lemma reassign_loop_payload:
  "map (\<lambda>r. (res_name r, res_description r, res_available r))
       (resources (snd (reassign_loop ps s))) =
     map (\<lambda>r. (res_name r, res_description r, res_available r)) (resources s)
   \<and> map (\<lambda>v. (rsv_id v, rsv_user_name v, rsv_date v)) (reservations (snd (reassign_loop ps s))) =
     map (\<lambda>v. (rsv_id v, rsv_user_name v, rsv_date v)) (reservations s)
   \<and> reservation_seq (snd (reassign_loop ps s)) = reservation_seq s
   \<and> stdout (snd (reassign_loop ps s)) = stdout s"
proof (induction ps arbitrary: s)
  case Nil
  then show ?case by simp
next
  case (Cons p ps)
  obtain index old_id where p: "p = (index, old_id)" by (cases p)
  show ?case
  proof (cases "update_resource_id index old_id s")
    case (Inl e)
    then show ?thesis by (simp add: p)
  next
    case (Inr s1)
    then have s1: "s1 = s\<lparr>resources :=
        map (\<lambda>r. if res_id r = old_id then r\<lparr>res_id := index\<rparr> else r) (resources s)\<rparr>"
      by (simp add: update_resource_id_def split: if_splits)
    have "snd (reassign_loop (p # ps) s) =
        snd (reassign_loop ps (update_reservation_fk index old_id s1))"
      by (simp add: p Inr)
    then show ?thesis
      using Cons.IH [of "update_reservation_fk index old_id s1"]
      by (simp add: s1 update_reservation_fk_def o_def if_distrib cong: if_cong)
  qed
qed

lemma contiguous_ids_iff:
  "contiguous_ids s \<longleftrightarrow>
     distinct (map res_id (resources s)) \<and>
     set (map res_id (resources s)) = {1..int (length (resources s))}"
proof
  assume "contiguous_ids s"
  then have eq: "sort (map res_id (resources s)) = [1..int (length (resources s))]"
    by (simp add: contiguous_ids_def)
  have "distinct (sort (map res_id (resources s)))" unfolding eq by simp
  moreover have "set (sort (map res_id (resources s))) = {1..int (length (resources s))}"
    unfolding eq by simp
  ultimately show "distinct (map res_id (resources s)) \<and>
     set (map res_id (resources s)) = {1..int (length (resources s))}"
    by simp
next
  assume a: "distinct (map res_id (resources s)) \<and>
     set (map res_id (resources s)) = {1..int (length (resources s))}"
  have "sort (map res_id (resources s)) = [1..int (length (resources s))]"
  proof (rule sorted_distinct_set_unique)
    show "sorted (sort (map res_id (resources s)))" by simp
    show "distinct (sort (map res_id (resources s)))" using a by simp
    show "sorted [1..int (length (resources s))]" by simp
    show "distinct [1..int (length (resources s))]" by simp
    show "set (sort (map res_id (resources s))) = set [1..int (length (resources s))]"
      using a by simp
  qed
  then show "contiguous_ids s" by (simp add: contiguous_ids_def)
qed

lemma create_reservation_rejected:
  assumes "strip user_name = [] \<or> select_resource resource_id s = None
    \<or> (\<exists>row. select_resource resource_id s = Some row \<and> snd row = 0)"
  shows "resources (snd (create_reservation faults resource_id user_name date s)) = resources s
    \<and> reservations (snd (create_reservation faults resource_id user_name date s)) = reservations s
    \<and> reservation_seq (snd (create_reservation faults resource_id user_name date s)) =
        reservation_seq s"
  using assms
  by (auto simp: create_reservation_def create_reservation_try_def print_def
      split: option.splits)


lemma delete_resource_contiguous:
  assumes "distinct (map res_id (resources s))" and "\<forall>r\<in>set (resources s). 1 \<le> res_id r"
  shows "contiguous_ids (snd (delete_resource resource_id s))"
proof -
  define ids where "ids = map res_id (filter (\<lambda>r. res_id r \<noteq> resource_id) (resources s))"
  have dids: "distinct ids"
    using assms(1) by (simp add: ids_def distinct_map_filter)
  note eq = delete_resource_renumbers [OF assms, of resource_id]
  have ids': "map res_id (resources (snd (delete_resource resource_id s))) =
      map (renumbered 1 ids) ids"
    by (simp add: eq ids_def o_def)
  show ?thesis
    unfolding contiguous_ids_iff ids'
    using renumbered_ids [OF dids, of 1] by (simp add: eq ids_def)
qed

lemma contiguous_ids_positive:
  "contiguous_ids s \<Longrightarrow> \<forall>r\<in>set (resources s). 1 \<le> res_id r"
  by (auto simp: contiguous_ids_iff)

lemma fold_assignment_id: "res_id (fold apply_assignment updates r) = res_id r"
proof (induction updates arbitrary: r)
  case Nil
  then show ?case by simp
next
  case (Cons u updates)
  then show ?case by (cases u) simp_all
qed

lemma update_resource_ids:
  "map res_id (resources (snd (update_resource resource_id name description available s))) =
     map res_id (resources s)"
  by (simp add: update_resource_def execute_update_def o_def if_distrib fold_assignment_id
      cong: if_cong)

lemma create_reservation_ids:
  "map res_id (resources (snd (create_reservation faults resource_id user_name date s))) =
     map res_id (resources s)"
  by (simp add: create_reservation_def create_reservation_try_def insert_reservation_def
      set_unavailable_def print_def Let_def o_def if_distrib
      split: option.splits cong: if_cong)

lemma remove_reservation_ids:
  "map res_id (resources (snd (remove_reservation_ui reservation_id resource_id s))) =
     map res_id (resources s)"
  by (simp add: remove_reservation_ui_def update_resource_ids delete_reservation_row_def)

lemma contiguous_ids_cong:
  "map res_id (resources s') = map res_id (resources s) \<Longrightarrow>
   contiguous_ids s' = contiguous_ids s"
proof -
  assume eq: "map res_id (resources s') = map res_id (resources s)"
  then have "length (resources s') = length (resources s)"
    using length_map by metis
  with eq show ?thesis by (simp add: contiguous_ids_def)
qed

lemma add_resource_contiguous:
  assumes "contiguous_ids s"
  shows "contiguous_ids (snd (add_resource name description s))"
proof -
  let ?n = "int (length (resources s))"
  have dist: "distinct (map res_id (resources s))"
    and ids: "set (map res_id (resources s)) = {1..?n}"
    using assms by (simp_all add: contiguous_ids_iff)
  have gen: "generate_resource_id s = ?n + 1"
  proof (cases "resources s = []")
    case True
    then show ?thesis by (simp add: generate_resource_id_def select_max_id_def)
  next
    case False
    then have "1 \<le> ?n" by (cases "resources s") simp_all
    then have "Max {1..?n} = ?n" by (simp add: Max_eq_iff)
    with False ids show ?thesis
      by (simp add: generate_resource_id_def select_max_id_def)
  qed
  have fresh: "?n + 1 \<notin> set (map res_id (resources s))"
    unfolding ids by simp
  have "map res_id (resources (snd (add_resource name description s))) =
      map res_id (resources s) @ [?n + 1]"
    using fresh by (simp add: add_resource_def gen insert_resource_def)
  moreover have "{1..?n} \<union> {?n + 1} = {1..?n + 1}" by auto
  ultimately show ?thesis
    unfolding contiguous_ids_iff using dist ids fresh
    by (simp add: add_resource_def gen insert_resource_def)
qed

lemma step_contiguous: "contiguous_ids s \<Longrightarrow> contiguous_ids (step operation s)"
proof (cases operation)
  case (AddResource name description)
  assume "contiguous_ids s"
  then show ?thesis by (simp add: AddResource add_resource_contiguous)
next
  case (UpdateResource resource_id name description available)
  assume "contiguous_ids s"
  then show ?thesis
    by (simp add: UpdateResource contiguous_ids_cong [OF update_resource_ids])
next
  case (DeleteResource resource_id)
  assume c: "contiguous_ids s"
  then have "distinct (map res_id (resources s))" by (simp add: contiguous_ids_iff)
  with contiguous_ids_positive [OF c] show ?thesis
    by (simp add: DeleteResource delete_resource_contiguous)
next
  case (CreateReservation faults resource_id user_name date)
  assume "contiguous_ids s"
  then show ?thesis
    by (simp add: CreateReservation contiguous_ids_cong [OF create_reservation_ids])
next
  case (RemoveReservation reservation_id resource_id)
  assume "contiguous_ids s"
  then show ?thesis
    by (simp add: RemoveReservation contiguous_ids_cong [OF remove_reservation_ids])
qed

lemma run_contiguous: "contiguous_ids s \<Longrightarrow> contiguous_ids (run ops s)"
  unfolding run_def
  by (induction ops arbitrary: s) (simp_all add: step_contiguous)


section \<open>Deleting a resource\<close>




section \<open>Adding a resource\<close>


section \<open>Updating a resource\<close>


text \<open>
  C9. When \<^verbatim>\<open>update_resource\<close> is called with no field (name and description each
  \<^verbatim>\<open>None\<close> or empty, \<^verbatim>\<open>available\<close> \<^verbatim>\<open>None\<close>), the statement it builds has an empty SET
  clause, executing it raises \<^verbatim>\<open>OperationalError\<close>, and the state is as before.
\<close>

theorem update_resource_no_fields:
  assumes "name \<in> {None, Some []}" and "description \<in> {None, Some []}"
  shows "update_query (build_updates name description None) =
           ''UPDATE resources SET  WHERE id = ?''
       \<and> update_resource resource_id name description None s =
           (Some (OperationalError ''near \"WHERE\": syntax error''), s)"
  using assms
  by (auto simp: update_resource_def execute_update_def build_updates_def update_query_def)

text \<open>On the sample state, with the name \<^verbatim>\<open>None\<close> and an empty description.\<close>

theorem update_resource_no_fields_witness:
  "update_query (build_updates None (Some []) None) = ''UPDATE resources SET  WHERE id = ?''
   \<and> update_resource 5 None (Some []) None sample_db =
       (Some (OperationalError ''near \"WHERE\": syntax error''), sample_db)"
  using update_resource_no_fields [of None "Some []" 5 sample_db] by simp

section \<open>Creating a reservation\<close>



text \<open>
  C3. In a database state with a resource whose \<^verbatim>\<open>available\<close> flag is 1, and for a user
  name that is not blank, \<^verbatim>\<open>create_reservation\<close> on a database that answers every call
  returns \<^verbatim>\<open>True\<close>, appends one reservation row for that resource, user and date, and sets
  the flag of the resource to 0. Any further \<^verbatim>\<open>create_reservation\<close> on the same resource
  in the state reached returns \<^verbatim>\<open>False\<close> and changes neither table. From the empty
  database, \<^verbatim>\<open>add_resource("Room A", "desc")\<close> gives the id 1,
  \<^verbatim>\<open>create_reservation(1, "Alice", "2024-01-01")\<close> returns \<^verbatim>\<open>True\<close> and makes resource 1
  unavailable, and \<^verbatim>\<open>create_reservation(1, "Bob", "2024-01-02")\<close> then returns \<^verbatim>\<open>False\<close>.
\<close>

theorem create_reservation_once:
  assumes "valid_db s" and "r \<in> set (resources s)" and "res_available r = 1"
    and "\<not> (\<forall>c\<in>set user_name. isspace c)"
  shows "create_reservation no_faults (res_id r) user_name date s =
      (Inr True,
       s\<lparr>resources :=
           map (\<lambda>x. if res_id x = res_id r then x\<lparr>res_available := 0\<rparr> else x) (resources s),
         reservations := reservations s @
           [\<lparr>rsv_id = next_reservation_id s, rsv_resource_id = res_id r,
             rsv_user_name = user_name, rsv_date = date\<rparr>],
         reservation_seq := next_reservation_id s,
         stdout := stdout s @ [''Reservation created successfully.'']\<rparr>)
    \<and> (\<forall>faults' user_name' date'.
         fst (create_reservation faults' (res_id r) user_name' date'
               (snd (create_reservation no_faults (res_id r) user_name date s))) = Inr False
       \<and> resources (snd (create_reservation faults' (res_id r) user_name' date'
               (snd (create_reservation no_faults (res_id r) user_name date s)))) =
           resources (snd (create_reservation no_faults (res_id r) user_name date s))
       \<and> reservations (snd (create_reservation faults' (res_id r) user_name' date'
               (snd (create_reservation no_faults (res_id r) user_name date s)))) =
           reservations (snd (create_reservation no_faults (res_id r) user_name date s)))
    \<and> map res_id (resources (snd (add_resource ''Room A'' ''desc'' empty_db))) = [1]
    \<and> fst (create_reservation no_faults 1 ''Alice'' ''2024-01-01''
             (snd (add_resource ''Room A'' ''desc'' empty_db))) = Inr True
    \<and> map (\<lambda>x. (res_id x, res_available x))
          (resources (snd (create_reservation no_faults 1 ''Alice'' ''2024-01-01''
             (snd (add_resource ''Room A'' ''desc'' empty_db))))) = [(1, 0)]
    \<and> fst (create_reservation no_faults 1 ''Bob'' ''2024-01-02''
             (snd (create_reservation no_faults 1 ''Alice'' ''2024-01-01''
               (snd (add_resource ''Room A'' ''desc'' empty_db))))) = Inr False"
proof -
  let ?s' = "s\<lparr>resources :=
           map (\<lambda>x. if res_id x = res_id r then x\<lparr>res_available := 0\<rparr> else x) (resources s),
         reservations := reservations s @
           [\<lparr>rsv_id = next_reservation_id s, rsv_resource_id = res_id r,
             rsv_user_name = user_name, rsv_date = date\<rparr>],
         reservation_seq := next_reservation_id s,
         stdout := stdout s @ [''Reservation created successfully.'']\<rparr>"
  have dist: "distinct (map res_id (resources s))"
    using assms(1) by (simp add: valid_db_def)
  have sel: "select_resource (res_id r) s = Some (res_id r, 1)"
    using select_resource_present [OF dist assms(2)] assms(3) by simp
  have nonblank: "strip user_name \<noteq> []"
    using assms(4) by (simp add: strip_empty_iff)
  have first: "create_reservation no_faults (res_id r) user_name date s = (Inr True, ?s')"
    using sel nonblank
    by (simp add: create_reservation_def create_reservation_try_def no_faults_def
        insert_reservation_def set_unavailable_def print_def Let_def)
  have ids': "map res_id (resources ?s') = map res_id (resources s)"
    by (simp add: o_def if_distrib cong: if_cong)
  have "r\<lparr>res_available := 0\<rparr> \<in> set (resources ?s')"
    using assms(2) by (auto simp: image_iff intro!: bexI [of _ r])
  then have sel': "select_resource (res_id r) ?s' = Some (res_id r, 0)"
    using select_resource_present [of ?s' "r\<lparr>res_available := 0\<rparr>"] dist
    unfolding ids' by simp
  have again: "fst (create_reservation faults' (res_id r) user_name' date' ?s') = Inr False
      \<and> resources (snd (create_reservation faults' (res_id r) user_name' date' ?s')) =
          resources ?s'
      \<and> reservations (snd (create_reservation faults' (res_id r) user_name' date' ?s')) =
          reservations ?s'"
    for faults' user_name' date'
    using create_reservation_rejected [of user_name' "res_id r" ?s' faults' date'] sel'
    by (simp add: create_reservation_result)
  have ex1: "snd (add_resource ''Room A'' ''desc'' empty_db) =
      \<lparr>resources = [\<lparr>res_id = 1, res_name = ''Room A'', res_description = ''desc'',
                      res_available = 1\<rparr>],
       reservations = [], reservation_seq = 0, stdout = []\<rparr>"
    by (simp add: add_resource_def generate_resource_id_def select_max_id_def
        insert_resource_def empty_db_def)
  have alice: "strip ''Alice'' \<noteq> []" and bob: "strip ''Bob'' \<noteq> []"
    by (simp_all add: strip_def isspace_def)
  have ex2: "create_reservation no_faults 1 ''Alice'' ''2024-01-01''
        \<lparr>resources = [\<lparr>res_id = 1, res_name = ''Room A'', res_description = ''desc'',
                        res_available = 1\<rparr>],
         reservations = [], reservation_seq = 0, stdout = []\<rparr> =
      (Inr True,
       \<lparr>resources = [\<lparr>res_id = 1, res_name = ''Room A'', res_description = ''desc'',
                       res_available = 0\<rparr>],
        reservations = [\<lparr>rsv_id = 1, rsv_resource_id = 1, rsv_user_name = ''Alice'',
                          rsv_date = ''2024-01-01''\<rparr>],
        reservation_seq = 1, stdout = [''Reservation created successfully.'']\<rparr>)"
    using alice
    by (simp add: create_reservation_def create_reservation_try_def no_faults_def
        select_resource_def insert_reservation_def next_reservation_id_def
        set_unavailable_def print_def Let_def)
  have ex3: "fst (create_reservation no_faults 1 ''Bob'' ''2024-01-02''
       \<lparr>resources = [\<lparr>res_id = 1, res_name = ''Room A'', res_description = ''desc'',
                       res_available = 0\<rparr>],
        reservations = [\<lparr>rsv_id = 1, rsv_resource_id = 1, rsv_user_name = ''Alice'',
                          rsv_date = ''2024-01-01''\<rparr>],
        reservation_seq = 1, stdout = [''Reservation created successfully.'']\<rparr>) = Inr False"
    by (simp add: create_reservation_result select_resource_def)
  show ?thesis
    unfolding first ex1 ex2 snd_conv fst_conv
    using again ex3 by simp
qed

text \<open>On the sample state: the projector, id 5, is free, and Dave reserves it.\<close>

theorem create_reservation_once_witness:
  "valid_db sample_db
   \<and> create_reservation no_faults 5 ''Dave'' ''2024-02-01'' sample_db =
      (Inr True,
       sample_db\<lparr>resources :=
        [\<lparr>res_id = 2, res_name = ''Room A'', res_description = ''first floor'', res_available = 0\<rparr>,
         \<lparr>res_id = 5, res_name = ''Projector'', res_description = ''HDMI'', res_available = 0\<rparr>,
         \<lparr>res_id = 9, res_name = ''Van'', res_description = ''seven seats'', res_available = 0\<rparr>],
        reservations := reservations sample_db @
         [\<lparr>rsv_id = 5, rsv_resource_id = 5, rsv_user_name = ''Dave'', rsv_date = ''2024-02-01''\<rparr>],
        reservation_seq := 5,
        stdout := [''Reservation created successfully.'']\<rparr>)
   \<and> fst (create_reservation no_faults 5 ''Erin'' ''2024-02-02''
        (snd (create_reservation no_faults 5 ''Dave'' ''2024-02-01'' sample_db))) = Inr False"
proof -
  let ?r = "\<lparr>res_id = 5, res_name = ''Projector'', res_description = ''HDMI'',
     res_available = 1\<rparr>"
  have v: "valid_db sample_db"
    by (simp add: valid_db_def sample_db_def)
  have m: "?r \<in> set (resources sample_db)"
    by (simp add: sample_db_def)
  have a: "res_available ?r = 1" by simp
  have n: "\<not> (\<forall>c\<in>set ''Dave''. isspace c)"
    by (simp add: isspace_def)
  note once = create_reservation_once [OF v m a n, of "''2024-02-01''"]
  have first: "create_reservation no_faults 5 ''Dave'' ''2024-02-01'' sample_db =
      (Inr True,
       sample_db\<lparr>resources :=
        [\<lparr>res_id = 2, res_name = ''Room A'', res_description = ''first floor'', res_available = 0\<rparr>,
         \<lparr>res_id = 5, res_name = ''Projector'', res_description = ''HDMI'', res_available = 0\<rparr>,
         \<lparr>res_id = 9, res_name = ''Van'', res_description = ''seven seats'', res_available = 0\<rparr>],
        reservations := reservations sample_db @
         [\<lparr>rsv_id = 5, rsv_resource_id = 5, rsv_user_name = ''Dave'', rsv_date = ''2024-02-01''\<rparr>],
        reservation_seq := 5,
        stdout := [''Reservation created successfully.'']\<rparr>)"
    using once [THEN conjunct1] by (simp add: sample_db_def next_reservation_id_def)
  have second: "fst (create_reservation no_faults 5 ''Erin'' ''2024-02-02''
        (snd (create_reservation no_faults 5 ''Dave'' ''2024-02-01'' sample_db))) = Inr False"
    using once [THEN conjunct2, THEN conjunct1, rule_format, of no_faults "''Erin''" "''2024-02-02''"]
    by simp
  show ?thesis
    using v first second by blast
qed




section \<open>Releasing a reservation\<close>



section \<open>What a deletion keeps\<close>

text \<open>
  C10. In every state, also one in which the renumbering stops with an exception,
  \<^verbatim>\<open>delete_resource\<close> keeps the name, the description and the \<^verbatim>\<open>available\<close> flag of each
  resource other than the deleted one, and the id, the user name and the date of each
  reservation that is not of the deleted resource: row by row, only the \<^verbatim>\<open>id\<close> of a
  resource and the \<^verbatim>\<open>resource_id\<close> of a reservation can differ.
\<close>

theorem delete_resource_frame:
  "map (\<lambda>r. (res_name r, res_description r, res_available r))
       (resources (snd (delete_resource resource_id s))) =
     map (\<lambda>r. (res_name r, res_description r, res_available r))
       (filter (\<lambda>r. res_id r \<noteq> resource_id) (resources s))
   \<and> map (\<lambda>v. (rsv_id v, rsv_user_name v, rsv_date v))
       (reservations (snd (delete_resource resource_id s))) =
     map (\<lambda>v. (rsv_id v, rsv_user_name v, rsv_date v))
       (filter (\<lambda>v. rsv_resource_id v \<noteq> resource_id) (reservations s))"
proof -
  define s2 where "s2 = delete_resource_row resource_id (delete_reservations_of resource_id s)"
  have res2: "resources s2 = filter (\<lambda>r. res_id r \<noteq> resource_id) (resources s)"
    and rsv2: "reservations s2 = filter (\<lambda>v. rsv_resource_id v \<noteq> resource_id) (reservations s)"
    by (simp_all add: s2_def delete_resource_row_def delete_reservations_of_def)
  have "delete_resource resource_id s =
      reassign_loop (enumerate_from 1 (select_ids_ordered s2)) s2"
    by (simp add: delete_resource_def reassign_ids_def s2_def)
  then show ?thesis
    using reassign_loop_payload [of "enumerate_from 1 (select_ids_ordered s2)" s2]
    by (simp add: res2 rsv2)
qed

section \<open>The ids along a run\<close>

text \<open>
  C5. The resource ids are exactly \<open>1..n\<close> in every state reached from the empty database
  by a sequence of calls of \<^verbatim>\<open>add_resource\<close>, \<^verbatim>\<open>update_resource\<close>, \<^verbatim>\<open>delete_resource\<close>,
  \<^verbatim>\<open>create_reservation\<close> (whatever the database answers) and the release action; in
  particular they are right after a \<^verbatim>\<open>delete_resource\<close> in such a state.
\<close>

theorem reachable_ids_contiguous:
  "contiguous_ids (run ops empty_db)
   \<and> contiguous_ids (snd (delete_resource resource_id (run ops empty_db)))"
proof -
  have "contiguous_ids empty_db"
    by (simp add: contiguous_ids_def empty_db_def)
  then have c: "contiguous_ids (run ops empty_db)"
    by (rule run_contiguous)
  then have "contiguous_ids (step (DeleteResource resource_id) (run ops empty_db))"
    by (rule step_contiguous)
  with c show ?thesis by simp
qed

end
